theory Spec2Isabelle
  imports Complex_Main
begin

section \<open>Data model (src/store/appStore.ts)\<close>

text \<open>
  TypeScript's \<open>number\<close> is modelled by \<^typ>\<open>real\<close>: the arithmetic of the placement
  and export code is read over the reals, so rounding, \<open>NaN\<close> and the infinities of IEEE
  doubles are outside the model. Strings are \<^typ>\<open>string\<close>; the contents of a file are a
  list of byte values.
\<close>

type_synonym bytes = "nat list"

record Size =
  width :: real
  height :: real

record PercentRect =
  x :: real
  y :: real
  w :: real
  h :: real

record Placement =
  placementId :: string
  pageIndex :: real
  rect :: PercentRect
  imageDataUrl :: string

record File =
  name :: string
  content :: bytes

datatype HTMLCanvasElement = Canvas Size

record S =
  pdfFile :: "File option"
  pages :: "HTMLCanvasElement list"
  pageSizes :: "Size list"
  placements :: "Placement list"
  currentSignature :: "string option"
  hasDoc :: bool

definition initialState :: S where
  "initialState = \<lparr> pdfFile = None, pages = [], pageSizes = [], placements = [],
     currentSignature = None, hasDoc = False \<rparr>"

subsection \<open>isValidDataURL\<close>

text \<open>
  The regular expression \<^verbatim>\<open>/^data:image\/(png|jpeg|jpg|webp);base64,[A-Za-z0-9+/=]+$/\<close>:
  one of the four format names between the two fixed parts, then a non-empty payload of
  base64 characters up to the end of the string.
\<close>

definition base64Char :: "char \<Rightarrow> bool" where
  "base64Char c \<longleftrightarrow>
     c \<in> set ''ABCDEFGHIJKLMNOPQRSTUVWXYZabcdefghijklmnopqrstuvwxyz0123456789+/=''"

definition stripPrefix :: "string \<Rightarrow> string \<Rightarrow> string option" where
  "stripPrefix pre s =
     (if take (length pre) s = pre then Some (drop (length pre) s) else None)"

definition isValidDataURL :: "string \<Rightarrow> bool" where
  "isValidDataURL dataUrl =
     list_ex (\<lambda>fmt.
        case stripPrefix (''data:image/'' @ fmt @ '';base64,'') dataUrl of
          None \<Rightarrow> False
        | Some payload \<Rightarrow> payload \<noteq> [] \<and> list_all base64Char payload)
       [''png'', ''jpeg'', ''jpg'', ''webp'']"

subsection \<open>Store actions\<close>

text \<open>
  Every action is a function from the state before to the state after, as the zustand
  \<open>set\<close> callback is: returning \<open>s\<close> itself is the rejected mutation.
  \<open>crypto.randomUUID()\<close> is the argument \<open>uuid\<close> of \<open>addPlacement\<close>.
\<close>

definition Number_isInteger :: "real \<Rightarrow> bool" where
  "Number_isInteger v \<longleftrightarrow> of_int \<lfloor>v\<rfloor> = v"

definition loadFile :: "File \<Rightarrow> S \<Rightarrow> S" where
  "loadFile f s = s\<lparr> pdfFile := Some f, hasDoc := True, pages := [], pageSizes := [],
     placements := [] \<rparr>"

definition clearAll :: "S \<Rightarrow> S" where
  "clearAll s = s\<lparr> pdfFile := None, hasDoc := False, pages := [], pageSizes := [],
     placements := [], currentSignature := None \<rparr>"

definition setPages :: "HTMLCanvasElement list \<Rightarrow> Size list \<Rightarrow> S \<Rightarrow> S" where
  "setPages canvases sizes s = s\<lparr> pages := canvases, pageSizes := sizes \<rparr>"

definition setPageSizes :: "Size list \<Rightarrow> S \<Rightarrow> S" where
  "setPageSizes sizes s = s\<lparr> pageSizes := sizes \<rparr>"

definition setCurrentSignature :: "string option \<Rightarrow> S \<Rightarrow> S" where
  "setCurrentSignature d s =
     (case d of
        None \<Rightarrow> s\<lparr> currentSignature := None \<rparr>
      | Some u \<Rightarrow>
          if u \<noteq> [] \<and> \<not> isValidDataURL u then s
          else s\<lparr> currentSignature := Some u \<rparr>)"

definition rectRejected :: "PercentRect \<Rightarrow> bool" where
  "rectRejected r \<longleftrightarrow>
     w r \<le> 0 \<or> h r \<le> 0 \<or> x r < 0 \<or> y r < 0 \<or>
     x r > 100 \<or> y r > 100 \<or> w r > 100 \<or> h r > 100"

definition addPlacement :: "string \<Rightarrow> real \<Rightarrow> PercentRect \<Rightarrow> string \<Rightarrow> S \<Rightarrow> S" where
  "addPlacement uuid pIndex r dataUrl s =
     (if \<not> isValidDataURL dataUrl then s
      else if pIndex < 0 \<or> \<not> Number_isInteger pIndex then s
      else if rectRejected r then s
      else s\<lparr> placements := placements s @
             [\<lparr> placementId = uuid, pageIndex = pIndex, rect = r, imageDataUrl = dataUrl \<rparr>] \<rparr>)"

definition updatePlacement :: "string \<Rightarrow> PercentRect \<Rightarrow> S \<Rightarrow> S" where
  "updatePlacement i r s =
     s\<lparr> placements := map (\<lambda>p. if placementId p = i then p\<lparr> rect := r \<rparr> else p)
                          (placements s) \<rparr>"

definition removePlacement :: "string \<Rightarrow> S \<Rightarrow> S" where
  "removePlacement i s =
     s\<lparr> placements := filter (\<lambda>p. placementId p \<noteq> i) (placements s) \<rparr>"

definition clearAllPlacements :: "S \<Rightarrow> S" where
  "clearAllPlacements s = s\<lparr> placements := [], currentSignature := None \<rparr>"


definition exportAll ::
  "(File \<Rightarrow> Placement list \<Rightarrow> 'e + 'o) \<Rightarrow> S \<Rightarrow> S \<times> (string + 'o)" where
  "exportAll exportFn s =
     (case pdfFile s of
        None \<Rightarrow> (s, Inl ''Please load a PDF file first'')
      | Some f \<Rightarrow>
          if length (placements s) = 0
          then (s, Inl ''Please add at least one signature to the PDF'')
          else (case exportFn f (placements s) of
                  Inl e \<Rightarrow> (s, Inl ''Failed to export PDF. Please try again.'')
                | Inr out \<Rightarrow> (s, Inr out)))"

text \<open>
  \<open>exportAll\<close> reads the state with \<open>get\<close> and never calls \<open>set\<close>: the state is returned
  as it was. Its visible effect is either an \<open>alert\<close> with the given message (\<open>Inl\<close>) or
  the download that the export function triggers (\<open>Inr\<close>). The export function is an
  argument, since the repository holds two versions of it (next section).
\<close>

section \<open>The NormalizedRect invariant of the specification\<close>

text \<open>
  This predicate is written from the specification's sentence
  \<open>0 \<le> x, 0 \<le> y, x + w \<le> 100, y + h \<le> 100, w > 0, h > 0\<close>, to be compared with the
  check \<open>rectRejected\<close> that the store makes.
\<close>

definition NormalizedRect_invariant :: "PercentRect \<Rightarrow> bool" where
  "NormalizedRect_invariant r \<longleftrightarrow>
     0 \<le> x r \<and> 0 \<le> y r \<and> x r + w r \<le> 100 \<and> y r + h r \<le> 100 \<and> w r > 0 \<and> h r > 0"

section \<open>Export pipeline (src/modules/write/export.ts and src/unnamed/part_000)\<close>

text \<open>
  The document library (pdf-lib) is not part of the repository. It is a parameter of the
  model: a record of the operations that \<open>exportSignedPdf\<close> calls, over a type
  \<open>'d\<close> of document states and a type \<open>'i\<close> of image handles. An operation that throws
  returns \<open>None\<close>. The pages of a document are given by their sizes; a page is addressed
  by its position.
\<close>

record ('d, 'i) pdflib =
  load :: "bytes \<Rightarrow> 'd option"
  getPages :: "'d \<Rightarrow> Size list"
  embedPng :: "'d \<Rightarrow> string \<Rightarrow> ('i \<times> 'd) option"
  embedJpg :: "'d \<Rightarrow> string \<Rightarrow> ('i \<times> 'd) option"
  drawImage :: "'d \<Rightarrow> nat \<Rightarrow> 'i \<Rightarrow> real \<Rightarrow> real \<Rightarrow> real \<Rightarrow> real \<Rightarrow> 'd option"
  save :: "'d \<Rightarrow> bytes option"

text \<open>
  The calls made on the library are recorded, in order: an embed attempt with its payload
  and the handle it returned (\<open>None\<close> when it threw), and a draw with its page, handle and
  the options \<open>x\<close>, \<open>y\<close>, \<open>width\<close>, \<open>height\<close>.
\<close>

datatype 'i call =
    EmbedPng string "'i option"
  | EmbedJpg string "'i option"
  | DrawImage nat 'i real real real real

datatype error = LoadFailed | TypeError | EmbedFailed | DrawFailed | SaveFailed | ExportFailed

record ('d, 'i) exportState =
  doc :: 'd
  cache :: "string \<rightharpoonup> 'i"
  calls :: "'i call list"

text \<open>\<open>pdfDoc.getPages()[p.pageIndex]\<close>: \<open>undefined\<close> unless the index is a position of the array.\<close>

definition pageAt :: "Size list \<Rightarrow> real \<Rightarrow> Size option" where
  "pageAt ps i =
     (if Number_isInteger i \<and> 0 \<le> i \<and> i < real (length ps) then Some (ps ! nat \<lfloor>i\<rfloor>)
      else None)"

text \<open>
  The cache lookup and the embedding (lines 26 to 35 of export.ts): PNG first, JPEG when
  that throws, the handle stored under the payload.
\<close>

definition embedCached ::
  "('d, 'i) pdflib \<Rightarrow> ('d, 'i) exportState \<Rightarrow> string \<Rightarrow> error + ('i \<times> ('d, 'i) exportState)" where
  "embedCached lib st url =
     (case cache st url of
        Some img \<Rightarrow> Inr (img, st)
      | None \<Rightarrow>
          (case embedPng lib (doc st) url of
             Some (img, d) \<Rightarrow>
               Inr (img, st\<lparr> doc := d, cache := (cache st)(url \<mapsto> img),
                              calls := calls st @ [EmbedPng url (Some img)] \<rparr>)
           | None \<Rightarrow>
               (case embedJpg lib (doc st) url of
                  Some (img, d) \<Rightarrow>
                    Inr (img, st\<lparr> doc := d, cache := (cache st)(url \<mapsto> img),
                                   calls := calls st @ [EmbedPng url None, EmbedJpg url (Some img)] \<rparr>)
                | None \<Rightarrow> Inl EmbedFailed)))"

text \<open>
  The two coordinate conversions. export.ts divides the stored rectangle by the display
  scale 1.5 (lines 38 to 42); part_000 reads it as percentages of the page (lines 39 to 42).
  The result is \<open>(pdfX, pdfY, pdfW, pdfH)\<close>.
\<close>

definition pdfCoords :: "Size \<Rightarrow> PercentRect \<Rightarrow> real \<times> real \<times> real \<times> real" where
  "pdfCoords sz r =
     (let scale = 1.5 in
      (x r / scale, height sz - (y r + h r) / scale, w r / scale, h r / scale))"

definition pdfCoords_part000 :: "Size \<Rightarrow> PercentRect \<Rightarrow> real \<times> real \<times> real \<times> real" where
  "pdfCoords_part000 sz r =
     ((x r / 100) * width sz,
      height sz - ((y r + h r) / 100) * height sz,
      (w r / 100) * width sz,
      (h r / 100) * height sz)"

text \<open>One iteration of the loop over the placements, with the conversion as an argument.\<close>

definition placeOne ::
  "(Size \<Rightarrow> PercentRect \<Rightarrow> real \<times> real \<times> real \<times> real) \<Rightarrow> ('d, 'i) pdflib \<Rightarrow>
   ('d, 'i) exportState \<Rightarrow> Placement \<Rightarrow> error + ('d, 'i) exportState" where
  "placeOne conv lib st p =
     (case pageAt (getPages lib (doc st)) (pageIndex p) of
        None \<Rightarrow> Inl TypeError
      | Some sz \<Rightarrow>
          (case embedCached lib st (imageDataUrl p) of
             Inl e \<Rightarrow> Inl e
           | Inr (img, st1) \<Rightarrow>
               (case conv sz (rect p) of
                  (pdfX, pdfY, pdfW, pdfH) \<Rightarrow>
                    (case drawImage lib (doc st1) (nat \<lfloor>pageIndex p\<rfloor>) img pdfX pdfY pdfW pdfH of
                       None \<Rightarrow> Inl DrawFailed
                     | Some d \<Rightarrow>
                         Inr (st1\<lparr> doc := d,
                                   calls := calls st1 @
                                     [DrawImage (nat \<lfloor>pageIndex p\<rfloor>) img pdfX pdfY pdfW pdfH] \<rparr>)))))"

fun placeAll ::
  "(Size \<Rightarrow> PercentRect \<Rightarrow> real \<times> real \<times> real \<times> real) \<Rightarrow> ('d, 'i) pdflib \<Rightarrow>
   ('d, 'i) exportState \<Rightarrow> Placement list \<Rightarrow> error + ('d, 'i) exportState" where
  "placeAll conv lib st [] = Inr st"
| "placeAll conv lib st (p # ps) =
     (case placeOne conv lib st p of
        Inl e \<Rightarrow> Inl e
      | Inr st1 \<Rightarrow> placeAll conv lib st1 ps)"

text \<open>
  What a completed export leaves behind: the calls it made on the library and the bytes
  handed to the browser for download. The advisory file name of the download is not
  modelled; no property below depends on it.
\<close>

record 'i exported =
  trace :: "'i call list"
  download :: bytes

definition exportWith ::
  "(Size \<Rightarrow> PercentRect \<Rightarrow> real \<times> real \<times> real \<times> real) \<Rightarrow> ('d, 'i) pdflib \<Rightarrow>
   File \<Rightarrow> Placement list \<Rightarrow> error + 'i exported" where
  "exportWith conv lib file ps =
     (case load lib (content file) of
        None \<Rightarrow> Inl LoadFailed
      | Some d \<Rightarrow>
          (case placeAll conv lib \<lparr> doc = d, cache = Map.empty, calls = [] \<rparr> ps of
             Inl e \<Rightarrow> Inl e
           | Inr st \<Rightarrow>
               (case save lib (doc st) of
                  None \<Rightarrow> Inl SaveFailed
                | Some out \<Rightarrow> Inr \<lparr> trace = calls st, download = out \<rparr>)))"

text \<open>
  \<open>exportSignedPdf\<close> is the function of src/modules/write/export.ts: an exception of any
  step leaves the function as it is. \<open>exportSignedPdf_part000\<close> is the function of
  src/unnamed/part_000: the same steps with the percentage conversion, inside a
  \<open>try\<close> whose \<open>catch\<close> throws one fixed error.
\<close>

definition exportSignedPdf ::
  "('d, 'i) pdflib \<Rightarrow> File \<Rightarrow> Placement list \<Rightarrow> error + 'i exported" where
  "exportSignedPdf lib file ps = exportWith pdfCoords lib file ps"

definition exportSignedPdf_part000 ::
  "('d, 'i) pdflib \<Rightarrow> File \<Rightarrow> Placement list \<Rightarrow> error + 'i exported" where
  "exportSignedPdf_part000 lib file ps =
     (case exportWith pdfCoords_part000 lib file ps of
        Inl e \<Rightarrow> Inl ExportFailed
      | Inr out \<Rightarrow> Inr out)"

subsection \<open>Reading a trace\<close>

text \<open>
  \<open>embedsOf url cs\<close> lists the handles that successful embeds of the payload \<open>url\<close>
  returned in \<open>cs\<close>; \<open>drawsOf cs\<close> lists the draws of \<open>cs\<close> as page, handle and
  \<open>(x, y, width, height)\<close>.
\<close>

fun embedded :: "string \<Rightarrow> 'i call \<Rightarrow> 'i list" where
  "embedded url (EmbedPng u r) = (if u = url then (case r of Some i \<Rightarrow> [i] | None \<Rightarrow> []) else [])"
| "embedded url (EmbedJpg u r) = (if u = url then (case r of Some i \<Rightarrow> [i] | None \<Rightarrow> []) else [])"
| "embedded url (DrawImage pg i px py pw ph) = []"

definition embedsOf :: "string \<Rightarrow> 'i call list \<Rightarrow> 'i list" where
  "embedsOf url cs = concat (map (embedded url) cs)"

fun drawn :: "'i call \<Rightarrow> (nat \<times> 'i \<times> real \<times> real \<times> real \<times> real) list" where
  "drawn (DrawImage pg i px py pw ph) = [(pg, i, px, py, pw, ph)]"
| "drawn (EmbedPng u r) = []"
| "drawn (EmbedJpg u r) = []"

definition drawsOf :: "'i call list \<Rightarrow> (nat \<times> 'i \<times> real \<times> real \<times> real \<times> real) list" where
  "drawsOf cs = concat (map drawn cs)"

text \<open>
  The cache and the trace agree when the handles embedded for a payload are exactly the
  one the cache holds for it.
\<close>

definition cacheAgrees :: "('d, 'i) exportState \<Rightarrow> bool" where
  "cacheAgrees st \<longleftrightarrow>
     (\<forall>url. embedsOf url (calls st) = (case cache st url of None \<Rightarrow> [] | Some i \<Rightarrow> [i]))"

text \<open>A library whose embeds and draws leave the page sizes of the document as they are.\<close>

definition preservesPages :: "('d, 'i) pdflib \<Rightarrow> bool" where
  "preservesPages lib \<longleftrightarrow>
     (\<forall>d url i d1. embedPng lib d url = Some (i, d1) \<longrightarrow> getPages lib d1 = getPages lib d) \<and>
     (\<forall>d url i d1. embedJpg lib d url = Some (i, d1) \<longrightarrow> getPages lib d1 = getPages lib d) \<and>
     (\<forall>d pg i px py pw ph d1. drawImage lib d pg i px py pw ph = Some d1 \<longrightarrow>
        getPages lib d1 = getPages lib d)"


text \<open>
  What the trace of a cached export looks like: every payload of the list was embedded
  exactly once and no other payload was, there is one draw per placement, and the draw
  number \<open>k\<close> is on the page of placement \<open>k\<close> with the handle that the one embed of
  its payload returned.
\<close>

definition oncePerPayload :: "Placement list \<Rightarrow> 'i call list \<Rightarrow> bool" where
  "oncePerPayload ps tr \<longleftrightarrow>
     (\<forall>url. length (embedsOf url tr) = (if url \<in> imageDataUrl ` set ps then 1 else 0)) \<and>
     length (drawsOf tr) = length ps \<and>
     (\<forall>k<length ps.
        fst (drawsOf tr ! k) = nat \<lfloor>pageIndex (ps ! k)\<rfloor> \<and>
        embedsOf (imageDataUrl (ps ! k)) tr = [fst (snd (drawsOf tr ! k))])"

subsection \<open>The steps of the export in terms of the library\<close>

text \<open>
  The steps 2 to 6 of the specification's export algorithm, written as relations over
  the operations of the library and not through \<open>placeOne\<close> and \<open>placeAll\<close>; the
  theorems compare the two. \<open>stepImage\<close>: the image of a placement is the cached handle
  of its payload, or, for a payload that is not cached, the handle of a PNG embed, or of
  a JPEG embed after the PNG embed threw.
\<close>

definition stepImage ::
  "('d, 'i) pdflib \<Rightarrow> ('d, 'i) exportState \<Rightarrow> string \<Rightarrow> 'i \<Rightarrow> ('d, 'i) exportState \<Rightarrow> bool" where
  "stepImage lib st url img st1 \<longleftrightarrow>
     cache st url = Some img \<and> st1 = st \<or>
     cache st url = None \<and>
       (\<exists>d. embedPng lib (doc st) url = Some (img, d) \<and>
            st1 = st\<lparr> doc := d, cache := (cache st)(url \<mapsto> img),
                        calls := calls st @ [EmbedPng url (Some img)] \<rparr>) \<or>
     cache st url = None \<and> embedPng lib (doc st) url = None \<and>
       (\<exists>d. embedJpg lib (doc st) url = Some (img, d) \<and>
            st1 = st\<lparr> doc := d, cache := (cache st)(url \<mapsto> img),
                        calls := calls st @ [EmbedPng url None, EmbedJpg url (Some img)] \<rparr>)"

text \<open>
  \<open>stepDone\<close>: a placement is placed when its page exists, its image is obtained and the
  draw at the converted rectangle returns.
\<close>

definition stepDone ::
  "(Size \<Rightarrow> PercentRect \<Rightarrow> real \<times> real \<times> real \<times> real) \<Rightarrow> ('d, 'i) pdflib \<Rightarrow>
   ('d, 'i) exportState \<Rightarrow> Placement \<Rightarrow> ('d, 'i) exportState \<Rightarrow> bool" where
  "stepDone conv lib st p st2 \<longleftrightarrow>
     (\<exists>sz img st1 d.
        pageAt (getPages lib (doc st)) (pageIndex p) = Some sz \<and>
        stepImage lib st (imageDataUrl p) img st1 \<and>
        drawImage lib (doc st1) (nat \<lfloor>pageIndex p\<rfloor>) img
          (fst (conv sz (rect p))) (fst (snd (conv sz (rect p))))
          (fst (snd (snd (conv sz (rect p))))) (snd (snd (snd (conv sz (rect p))))) = Some d \<and>
        st2 = st1\<lparr> doc := d, calls := calls st1 @
          [DrawImage (nat \<lfloor>pageIndex p\<rfloor>) img
            (fst (conv sz (rect p))) (fst (snd (conv sz (rect p))))
            (fst (snd (snd (conv sz (rect p))))) (snd (snd (snd (conv sz (rect p)))))] \<rparr>)"

text \<open>
  \<open>stepThrows\<close>: placing a placement fails when its page is missing, or its payload is
  not cached and embeds neither as PNG nor as JPEG, or its image is obtained and the draw
  throws.
\<close>

definition stepThrows ::
  "(Size \<Rightarrow> PercentRect \<Rightarrow> real \<times> real \<times> real \<times> real) \<Rightarrow> ('d, 'i) pdflib \<Rightarrow>
   ('d, 'i) exportState \<Rightarrow> Placement \<Rightarrow> bool" where
  "stepThrows conv lib st p \<longleftrightarrow>
     pageAt (getPages lib (doc st)) (pageIndex p) = None \<or>
     cache st (imageDataUrl p) = None \<and>
       embedPng lib (doc st) (imageDataUrl p) = None \<and>
       embedJpg lib (doc st) (imageDataUrl p) = None \<or>
     (\<exists>sz img st1.
        pageAt (getPages lib (doc st)) (pageIndex p) = Some sz \<and>
        stepImage lib st (imageDataUrl p) img st1 \<and>
        drawImage lib (doc st1) (nat \<lfloor>pageIndex p\<rfloor>) img
          (fst (conv sz (rect p))) (fst (snd (conv sz (rect p))))
          (fst (snd (snd (conv sz (rect p))))) (snd (snd (snd (conv sz (rect p))))) = None)"

text \<open>\<open>placedAll\<close>: the placements of a list are placed one after the other.\<close>

fun placedAll ::
  "(Size \<Rightarrow> PercentRect \<Rightarrow> real \<times> real \<times> real \<times> real) \<Rightarrow> ('d, 'i) pdflib \<Rightarrow>
   ('d, 'i) exportState \<Rightarrow> Placement list \<Rightarrow> ('d, 'i) exportState \<Rightarrow> bool" where
  "placedAll conv lib st [] st2 \<longleftrightarrow> st2 = st"
| "placedAll conv lib st (p # ps) st2 \<longleftrightarrow>
     (\<exists>st1. stepDone conv lib st p st1 \<and> placedAll conv lib st1 ps st2)"

text \<open>
  A step of the export fails: the source does not load, or after some placements were
  placed the next one fails, or all were placed and the document does not save.
\<close>

definition isFailure :: "'e + 'a \<Rightarrow> bool" where
  "isFailure r = (case r of Inl e \<Rightarrow> True | Inr v \<Rightarrow> False)"

definition failedStep ::
  "(Size \<Rightarrow> PercentRect \<Rightarrow> real \<times> real \<times> real \<times> real) \<Rightarrow> ('d, 'i) pdflib \<Rightarrow>
   File \<Rightarrow> Placement list \<Rightarrow> bool" where
  "failedStep conv lib file ps \<longleftrightarrow>
     (case load lib (content file) of
        None \<Rightarrow> True
      | Some d \<Rightarrow>
          (\<exists>ps1 p ps2 st1. ps = ps1 @ p # ps2 \<and>
             placedAll conv lib \<lparr> doc = d, cache = Map.empty, calls = [] \<rparr> ps1 st1 \<and>
             stepThrows conv lib st1 p) \<or>
          (\<exists>st. placedAll conv lib \<lparr> doc = d, cache = Map.empty, calls = [] \<rparr> ps st \<and>
             save lib (doc st) = None))"

subsection \<open>A small document library for evaluation\<close>

text \<open>
  A concrete library to run the export on: a document is its page sizes, the payloads
  embedded so far and the number of images drawn; a handle is the position of the payload.
  Every file loads as a one-page or two-page Letter document (two pages when the file has
  at least two bytes), a payload embeds as PNG when it starts with \<open>data:image/png\<close>, as
  JPEG when it starts with \<open>data:image/jpeg\<close>, and saving writes the number of images
  drawn.
\<close>

definition letter :: Size where
  "letter = \<lparr> width = 612, height = 792 \<rparr>"

definition testLib :: "(Size list \<times> string list \<times> nat, nat) pdflib" where
  "testLib = \<lparr>
     load = (\<lambda>bs. if bs = [] then None
                  else Some (if length bs < 2 then [letter] else [letter, letter], [], 0)),
     getPages = (\<lambda>(pgs, imgs, n). pgs),
     embedPng = (\<lambda>(pgs, imgs, n) url.
        if take 14 url = ''data:image/png'' then Some (length imgs, (pgs, imgs @ [url], n))
        else None),
     embedJpg = (\<lambda>(pgs, imgs, n) url.
        if take 15 url = ''data:image/jpeg'' then Some (length imgs, (pgs, imgs @ [url], n))
        else None),
     drawImage = (\<lambda>(pgs, imgs, n) pg img px py pw ph. Some (pgs, imgs, Suc n)),
     save = (\<lambda>(pgs, imgs, n). Some [n]) \<rparr>"

section \<open>Drag, pinch and delete gestures on a placement (src/components/PdfViewer.tsx)\<close>






















section \<open>Sample values\<close>

definition pngUrl :: string where
  "pngUrl = ''data:image/png;base64,iVBORw0KGgo=''"

definition sampleRect :: PercentRect where
  "sampleRect = \<lparr> x = 10, y = 20, w = 15, h = 5 \<rparr>"

definition sampleFile :: File where
  "sampleFile = \<lparr> name = ''contract.pdf'', content = [37, 80, 68, 70] \<rparr>"

definition onePage :: S where
  "onePage = setPages [Canvas \<lparr> width = 918, height = 1188 \<rparr>] [\<lparr> width = 918, height = 1188 \<rparr>]
     (loadFile sampleFile initialState)"

definition signedOnce :: S where
  "signedOnce = addPlacement ''id-1'' 0 sampleRect pngUrl onePage"


definition samplePlacement :: Placement where
  "samplePlacement = \<lparr> placementId = ''id-1'', pageIndex = 0, rect = sampleRect,
     imageDataUrl = pngUrl \<rparr>"

definition twoPlacements :: "Placement list" where
  "twoPlacements =
     [samplePlacement, samplePlacement\<lparr> placementId := ''id-2'', pageIndex := 1 \<rparr>]"

definition twoSigned :: "nat exported" where
  "twoSigned = \<lparr> trace = [EmbedPng pngUrl (Some 0),
                          DrawImage 0 0 (306 / 5) 594 (459 / 5) (198 / 5),
                          DrawImage 1 0 (306 / 5) 594 (459 / 5) (198 / 5)],
                 download = [2] \<rparr>"

definition twoSignedScaled :: "nat exported" where
  "twoSignedScaled = \<lparr> trace = [EmbedPng pngUrl (Some 0),
                          DrawImage 0 0 (20 / 3) (2326 / 3) 10 (10 / 3),
                          DrawImage 1 0 (20 / 3) (2326 / 3) 10 (10 / 3)],
                 download = [2] \<rparr>"

definition gifUrl :: string where
  "gifUrl = ''data:image/gif;base64,R0lGODlh''"

definition badPlacements :: "Placement list" where
  "badPlacements =
     [samplePlacement, samplePlacement\<lparr> placementId := ''id-2'', imageDataUrl := gifUrl \<rparr>]"

definition badStore :: S where
  "badStore = onePage\<lparr> placements := badPlacements \<rparr>"


text \<open>The same library with a first page only to draw on: a draw on any other page throws.\<close>

definition strictLib :: "(Size list \<times> string list \<times> nat, nat) pdflib" where
  "strictLib = testLib\<lparr> drawImage :=
     (\<lambda>(pgs, imgs, n) pg img px py pw ph. if pg = 0 then Some (pgs, imgs, Suc n) else None) \<rparr>"

definition twoStore :: S where
  "twoStore = onePage\<lparr> placements := twoPlacements \<rparr>"

section \<open>Properties of the store\<close>

lemma pngUrl_valid: "isValidDataURL pngUrl"
  by (simp add: isValidDataURL_def pngUrl_def stripPrefix_def base64Char_def)

lemma rectRejected_violates: "rectRejected r \<Longrightarrow> \<not> NormalizedRect_invariant r"
  by (auto simp: rectRejected_def NormalizedRect_invariant_def)

lemma onePage_fields:
  "placements onePage = []" "length (pages onePage) = 1"
  by (simp_all add: onePage_def setPages_def loadFile_def)

lemma signedOnce_placements: "placements signedOnce = [samplePlacement]"
  by (simp add: signedOnce_def addPlacement_def pngUrl_valid Number_isInteger_def
      rectRejected_def sampleRect_def onePage_fields samplePlacement_def)

text \<open>
  C2, as stated, fails on the code: \<open>addPlacement\<close> tests each of \<open>x\<close>,
  \<open>y\<close>, \<open>w\<close>, \<open>h\<close> against the range 0 to 100 on its own and never the sums, so the
  rectangle \<open>{x: 60, y: 0, w: 60, h: 10}\<close>, which breaks \<open>x + w \<le> 100\<close>, is appended.
\<close>

theorem addPlacement_overflowing_rect_counterexample:
  "\<not> NormalizedRect_invariant \<lparr> x = 60, y = 0, w = 60, h = 10 \<rparr> \<and>
   placements (addPlacement ''id-1'' 0 \<lparr> x = 60, y = 0, w = 60, h = 10 \<rparr> pngUrl initialState)
     \<noteq> placements initialState"
  by (simp add: NormalizedRect_invariant_def addPlacement_def pngUrl_valid Number_isInteger_def
      rectRejected_def initialState_def)

text \<open>
  C2 as amended: a rectangle with \<open>w \<le> 0\<close>, \<open>h \<le> 0\<close>, \<open>x < 0\<close>, \<open>y < 0\<close> or one of
  \<open>x\<close>, \<open>y\<close>, \<open>w\<close>, \<open>h\<close> above 100 violates the NormalizedRect invariant and is rejected
  by \<open>addPlacement\<close>, which returns the state as it was. A rectangle that passes this
  check is appended when the image and the page index are accepted, whatever \<open>x + w\<close>
  and \<open>y + h\<close> are.
\<close>

theorem addPlacement_rect_check:
  "(rectRejected r \<longrightarrow>
      \<not> NormalizedRect_invariant r \<and> addPlacement uuid pIndex r dataUrl s = s) \<and>
   (\<not> rectRejected r \<and> isValidDataURL dataUrl \<and> 0 \<le> pIndex \<and> Number_isInteger pIndex \<longrightarrow>
      placements (addPlacement uuid pIndex r dataUrl s) =
        placements s @
          [\<lparr> placementId = uuid, pageIndex = pIndex, rect = r, imageDataUrl = dataUrl \<rparr>])"
  by (auto simp: addPlacement_def dest: rectRejected_violates)

theorem addPlacement_rect_check_witness:
  "rectRejected \<lparr> x = 10, y = 20, w = 150, h = 5 \<rparr> \<and>
   addPlacement ''id-1'' 0 \<lparr> x = 10, y = 20, w = 150, h = 5 \<rparr> pngUrl initialState = initialState \<and>
   \<not> rectRejected \<lparr> x = 60, y = 0, w = 60, h = 10 \<rparr> \<and>
   placements (addPlacement ''id-1'' 0 \<lparr> x = 60, y = 0, w = 60, h = 10 \<rparr> pngUrl initialState) =
     [\<lparr> placementId = ''id-1'', pageIndex = 0, rect = \<lparr> x = 60, y = 0, w = 60, h = 10 \<rparr>,
        imageDataUrl = pngUrl \<rparr>]"
  using addPlacement_rect_check [of "\<lparr> x = 10, y = 20, w = 150, h = 5 \<rparr>" "''id-1''" 0 pngUrl initialState]
    addPlacement_rect_check [of "\<lparr> x = 60, y = 0, w = 60, h = 10 \<rparr>" "''id-1''" 0 pngUrl initialState]
  by (simp add: rectRejected_def pngUrl_valid Number_isInteger_def initialState_def)

text \<open>
  C3 does not hold of the code. \<open>updatePlacement\<close> makes no check at all, where \<open>addPlacement\<close>
  validates the same argument: on a store holding the placement \<open>id-1\<close> with the
  rectangle \<open>{x: 10, y: 20, w: 15, h: 5}\<close>, an update with \<open>{x: -5, y: 0, w: 200, h: 0}\<close>
  replaces the rectangle.
\<close>

theorem updatePlacement_accepts_invalid_rect:
  "\<not> NormalizedRect_invariant \<lparr> x = - 5, y = 0, w = 200, h = 0 \<rparr> \<and>
   rectRejected \<lparr> x = - 5, y = 0, w = 200, h = 0 \<rparr> \<and>
   map rect (placements signedOnce) = [\<lparr> x = 10, y = 20, w = 15, h = 5 \<rparr>] \<and>
   map rect (placements (updatePlacement ''id-1'' \<lparr> x = - 5, y = 0, w = 200, h = 0 \<rparr> signedOnce))
     = [\<lparr> x = - 5, y = 0, w = 200, h = 0 \<rparr>]"
  by (simp add: NormalizedRect_invariant_def rectRejected_def signedOnce_placements
      updatePlacement_def samplePlacement_def sampleRect_def)

text \<open>
  C4, as stated, fails on the code: \<open>addPlacement\<close> rejects a page index that
  is negative or not an integer, and never compares it with the pages of the document. On
  a store with one page, a placement on page index 5 is appended.
\<close>

theorem addPlacement_page_beyond_count_counterexample:
  "length (pages onePage) = 1 \<and>
   placements (addPlacement ''id-1'' 5 sampleRect pngUrl onePage) \<noteq> placements onePage"
  by (simp add: onePage_fields addPlacement_def pngUrl_valid Number_isInteger_def
      rectRejected_def sampleRect_def)

text \<open>
  C4 as amended: \<open>addPlacement\<close> with a page index that is negative or not an integer
  returns the state as it was; with any page index \<open>n = 0, 1, 2, ...\<close>, an accepted image
  and an accepted rectangle it appends the placement, whatever the number of pages is.
\<close>

theorem addPlacement_page_check:
  "(pIndex < 0 \<or> \<not> Number_isInteger pIndex \<longrightarrow> addPlacement uuid pIndex r dataUrl s = s) \<and>
   (isValidDataURL dataUrl \<and> \<not> rectRejected r \<longrightarrow>
      placements (addPlacement uuid (real n) r dataUrl s) =
        placements s @
          [\<lparr> placementId = uuid, pageIndex = real n, rect = r, imageDataUrl = dataUrl \<rparr>])"
  by (auto simp: addPlacement_def Number_isInteger_def)

theorem addPlacement_page_check_witness:
  "addPlacement ''id-1'' (- 1) sampleRect pngUrl onePage = onePage \<and>
   addPlacement ''id-1'' (1 / 2) sampleRect pngUrl onePage = onePage \<and>
   length (pages onePage) \<le> 5 \<and>
   placements (addPlacement ''id-1'' (real 5) sampleRect pngUrl onePage) =
     [\<lparr> placementId = ''id-1'', pageIndex = 5, rect = sampleRect, imageDataUrl = pngUrl \<rparr>]"
  using addPlacement_page_check [of "- 1" "''id-1''" sampleRect pngUrl onePage]
    addPlacement_page_check [of "1 / 2" "''id-1''" sampleRect pngUrl onePage 5]
  by (simp add: pngUrl_valid rectRejected_def Number_isInteger_def onePage_fields sampleRect_def)

text \<open>
  C8. Loading a document leaves no placement, whatever the state before held.
\<close>

theorem loadFile_clears_placements: "placements (loadFile f s) = []"
  by (simp add: loadFile_def)

lemma map_unknown_id:
  "i \<notin> placementId ` set ps \<Longrightarrow>
     map (\<lambda>p. if placementId p = i then p\<lparr> rect := r \<rparr> else p) ps = ps"
  by (induction ps) auto

lemma filter_unknown_id:
  "i \<notin> placementId ` set ps \<Longrightarrow> filter (\<lambda>p. placementId p \<noteq> i) ps = ps"
  by (induction ps) auto

text \<open>
  C10. With an id that no placement of the store carries, \<open>updatePlacement\<close> and
  \<open>removePlacement\<close> return the state as it was. Both are total functions of the state:
  neither has a branch that throws.
\<close>

theorem unknown_id_noop:
  "i \<notin> placementId ` set (placements s) \<Longrightarrow>
     updatePlacement i r s = s \<and> removePlacement i s = s"
  by (simp add: updatePlacement_def removePlacement_def map_unknown_id filter_unknown_id)

theorem unknown_id_noop_witness:
  "''id-2'' \<notin> placementId ` set (placements signedOnce) \<and>
   updatePlacement ''id-2'' \<lparr> x = 1, y = 2, w = 3, h = 4 \<rparr> signedOnce = signedOnce \<and>
   removePlacement ''id-2'' signedOnce = signedOnce"
proof -
  have hyp: "''id-2'' \<notin> placementId ` set (placements signedOnce)"
    by (simp add: signedOnce_placements samplePlacement_def)
  from unknown_id_noop [OF hyp, of "\<lparr> x = 1, y = 2, w = 3, h = 4 \<rparr>"] hyp
  show ?thesis by simp
qed

section \<open>Properties of the export pipeline\<close>

lemma embedsOf_append [simp]: "embedsOf url (cs @ ds) = embedsOf url cs @ embedsOf url ds"
  by (simp add: embedsOf_def)

lemma drawsOf_append [simp]: "drawsOf (cs @ ds) = drawsOf cs @ drawsOf ds"
  by (simp add: drawsOf_def)

lemma embedsOf_Nil [simp]: "embedsOf url [] = []"
  by (simp add: embedsOf_def)

lemma drawsOf_Nil [simp]: "drawsOf [] = []"
  by (simp add: drawsOf_def)

lemma embedsOf_Cons [simp]: "embedsOf url (c # cs) = embedded url c @ embedsOf url cs"
  by (simp add: embedsOf_def)

lemma drawsOf_Cons [simp]: "drawsOf (c # cs) = drawn c @ drawsOf cs"
  by (simp add: drawsOf_def)

lemma cacheAgreesD:
  "cacheAgrees st \<Longrightarrow> embedsOf u (calls st) = (case cache st u of None \<Rightarrow> [] | Some i \<Rightarrow> [i])"
  by (simp add: cacheAgrees_def)

lemma embedCached_cases:
  assumes "embedCached lib st url = Inr (img, st1)"
  obtains (hit) "cache st url = Some img" "st1 = st"
  | (png) d where "cache st url = None" "embedPng lib (doc st) url = Some (img, d)"
      "st1 = st\<lparr> doc := d, cache := (cache st)(url \<mapsto> img),
                  calls := calls st @ [EmbedPng url (Some img)] \<rparr>"
  | (jpg) d where "cache st url = None" "embedPng lib (doc st) url = None"
      "embedJpg lib (doc st) url = Some (img, d)"
      "st1 = st\<lparr> doc := d, cache := (cache st)(url \<mapsto> img),
                  calls := calls st @ [EmbedPng url None, EmbedJpg url (Some img)] \<rparr>"
  using assms
  by (auto simp: embedCached_def split: option.splits prod.splits)

lemma embedCached_step:
  assumes run: "embedCached lib st url = Inr (img, st1)" and agree: "cacheAgrees st"
  shows "cacheAgrees st1"
    and "cache st1 url = Some img"
    and "cache st \<subseteq>\<^sub>m cache st1"
    and "dom (cache st1) = insert url (dom (cache st))"
    and "drawsOf (calls st1) = drawsOf (calls st)"
proof -
  note a = cacheAgreesD [OF agree]
  from run show "cacheAgrees st1"
  proof (cases rule: embedCached_cases)
    case hit
    with agree show ?thesis by simp
  next
    case (png d)
    then show ?thesis
      by (simp add: cacheAgrees_def a)
  next
    case (jpg d)
    then show ?thesis
      by (simp add: cacheAgrees_def a)
  qed
  from run show "cache st1 url = Some img"
    by (cases rule: embedCached_cases) simp_all
  from run show "cache st \<subseteq>\<^sub>m cache st1"
    by (cases rule: embedCached_cases) (auto simp: map_le_def)
  from run show "dom (cache st1) = insert url (dom (cache st))"
    by (cases rule: embedCached_cases) auto
  from run show "drawsOf (calls st1) = drawsOf (calls st)"
    by (cases rule: embedCached_cases) simp_all
qed

lemma embedCached_pages:
  assumes "embedCached lib st url = Inr (img, st1)" and "preservesPages lib"
  shows "getPages lib (doc st1) = getPages lib (doc st)"
  using assms(1)
proof (cases rule: embedCached_cases)
  case hit
  then show ?thesis by simp
next
  case (png d)
  with assms(2) show ?thesis by (auto simp: preservesPages_def)
next
  case (jpg d)
  with assms(2) show ?thesis by (auto simp: preservesPages_def)
qed


lemma placeOne_cases:
  assumes "placeOne conv lib st p = Inr st2"
  obtains sz img st1 d where
    "pageAt (getPages lib (doc st)) (pageIndex p) = Some sz"
    "embedCached lib st (imageDataUrl p) = Inr (img, st1)"
    "drawImage lib (doc st1) (nat \<lfloor>pageIndex p\<rfloor>) img
       (fst (conv sz (rect p))) (fst (snd (conv sz (rect p))))
       (fst (snd (snd (conv sz (rect p))))) (snd (snd (snd (conv sz (rect p))))) = Some d"
    "st2 = st1\<lparr> doc := d, calls := calls st1 @
       [DrawImage (nat \<lfloor>pageIndex p\<rfloor>) img
         (fst (conv sz (rect p))) (fst (snd (conv sz (rect p))))
         (fst (snd (snd (conv sz (rect p))))) (snd (snd (snd (conv sz (rect p)))))] \<rparr>"
  using assms
  by (auto simp: placeOne_def split: option.splits sum.splits prod.splits)

lemma placeOne_step:
  assumes run: "placeOne conv lib st p = Inr st2" and agree: "cacheAgrees st"
  shows "cacheAgrees st2"
    and "cache st \<subseteq>\<^sub>m cache st2"
    and "dom (cache st2) = insert (imageDataUrl p) (dom (cache st))"
    and "\<exists>sz img. pageAt (getPages lib (doc st)) (pageIndex p) = Some sz \<and>
           cache st2 (imageDataUrl p) = Some img \<and>
           drawsOf (calls st2) =
             drawsOf (calls st) @ [(nat \<lfloor>pageIndex p\<rfloor>, img, conv sz (rect p))]"
proof -
  from run obtain sz img st1 d where
    pg: "pageAt (getPages lib (doc st)) (pageIndex p) = Some sz" and
    em: "embedCached lib st (imageDataUrl p) = Inr (img, st1)" and
    st2: "st2 = st1\<lparr> doc := d, calls := calls st1 @
       [DrawImage (nat \<lfloor>pageIndex p\<rfloor>) img
         (fst (conv sz (rect p))) (fst (snd (conv sz (rect p))))
         (fst (snd (snd (conv sz (rect p))))) (snd (snd (snd (conv sz (rect p)))))] \<rparr>"
    by (rule placeOne_cases)
  note e = embedCached_step [OF em agree]
  from e(1) show "cacheAgrees st2"
    by (simp add: st2 cacheAgrees_def)
  from e(3) show "cache st \<subseteq>\<^sub>m cache st2"
    by (simp add: st2)
  from e(4) show "dom (cache st2) = insert (imageDataUrl p) (dom (cache st))"
    by (simp add: st2)
  from pg e(2) e(5)
  show "\<exists>sz img. pageAt (getPages lib (doc st)) (pageIndex p) = Some sz \<and>
           cache st2 (imageDataUrl p) = Some img \<and>
           drawsOf (calls st2) =
             drawsOf (calls st) @ [(nat \<lfloor>pageIndex p\<rfloor>, img, conv sz (rect p))]"
    by (simp add: st2)
qed

lemma placeOne_pages:
  assumes run: "placeOne conv lib st p = Inr st2" and pres: "preservesPages lib"
  shows "getPages lib (doc st2) = getPages lib (doc st)"
proof -
  from run obtain sz img st1 d where
    em: "embedCached lib st (imageDataUrl p) = Inr (img, st1)" and
    dr: "drawImage lib (doc st1) (nat \<lfloor>pageIndex p\<rfloor>) img
       (fst (conv sz (rect p))) (fst (snd (conv sz (rect p))))
       (fst (snd (snd (conv sz (rect p))))) (snd (snd (snd (conv sz (rect p))))) = Some d" and
    st2: "st2 = st1\<lparr> doc := d, calls := calls st1 @
       [DrawImage (nat \<lfloor>pageIndex p\<rfloor>) img
         (fst (conv sz (rect p))) (fst (snd (conv sz (rect p))))
         (fst (snd (snd (conv sz (rect p))))) (snd (snd (snd (conv sz (rect p)))))] \<rparr>"
    by (rule placeOne_cases)
  from pres dr have "getPages lib d = getPages lib (doc st1)"
    unfolding preservesPages_def by blast
  with embedCached_pages [OF em pres] show ?thesis
    by (simp add: st2)
qed


lemma placeAll_Cons_cases:
  assumes "placeAll conv lib st (p # ps) = Inr st2"
  obtains st1 where "placeOne conv lib st p = Inr st1" "placeAll conv lib st1 ps = Inr st2"
  using assms by (auto split: sum.splits)

lemma placeAll_cache:
  assumes "placeAll conv lib st ps = Inr st2" and "cacheAgrees st"
  shows "cacheAgrees st2 \<and> cache st \<subseteq>\<^sub>m cache st2 \<and>
         dom (cache st2) = dom (cache st) \<union> imageDataUrl ` set ps"
  using assms
proof (induction ps arbitrary: st)
  case Nil
  then show ?case by simp
next
  case (Cons p ps)
  from Cons.prems(1) obtain st1 where
    one: "placeOne conv lib st p = Inr st1" and rest: "placeAll conv lib st1 ps = Inr st2"
    by (rule placeAll_Cons_cases)
  note s = placeOne_step [OF one Cons.prems(2)]
  from Cons.IH [OF rest s(1)] s(2) s(3) show ?case
    by (auto intro: map_le_trans)
qed

lemma placeAll_handles:
  assumes "placeAll conv lib st ps = Inr st2" and "cacheAgrees st"
  shows "map (\<lambda>(pg, img, c). (pg, Some img)) (drawsOf (calls st2)) =
         map (\<lambda>(pg, img, c). (pg, Some img)) (drawsOf (calls st)) @
         map (\<lambda>p. (nat \<lfloor>pageIndex p\<rfloor>, cache st2 (imageDataUrl p))) ps"
  using assms
proof (induction ps arbitrary: st)
  case Nil
  then show ?case by simp
next
  case (Cons p ps)
  from Cons.prems(1) obtain st1 where
    one: "placeOne conv lib st p = Inr st1" and rest: "placeAll conv lib st1 ps = Inr st2"
    by (rule placeAll_Cons_cases)
  note s = placeOne_step [OF one Cons.prems(2)]
  from s(4) obtain sz img where
    img: "cache st1 (imageDataUrl p) = Some img" and
    dr: "drawsOf (calls st1) = drawsOf (calls st) @ [(nat \<lfloor>pageIndex p\<rfloor>, img, conv sz (rect p))]"
    by blast
  from placeAll_cache [OF rest s(1)] have "cache st1 \<subseteq>\<^sub>m cache st2"
    by simp
  with img have "cache st2 (imageDataUrl p) = Some img"
    by (metis domI map_le_def)
  with Cons.IH [OF rest s(1)] dr show ?case
    by simp
qed

lemma placeAll_pages:
  assumes "placeAll conv lib st ps = Inr st2" and "preservesPages lib"
  shows "getPages lib (doc st2) = getPages lib (doc st)"
  using assms
proof (induction ps arbitrary: st)
  case Nil
  then show ?case by simp
next
  case (Cons p ps)
  from Cons.prems(1) obtain st1 where
    one: "placeOne conv lib st p = Inr st1" and rest: "placeAll conv lib st1 ps = Inr st2"
    by (rule placeAll_Cons_cases)
  from Cons.IH [OF rest Cons.prems(2)] placeOne_pages [OF one Cons.prems(2)]
  show ?case by simp
qed

lemma pageAt_Some: "pageAt pgs i = Some sz \<Longrightarrow> sz = pgs ! nat \<lfloor>i\<rfloor> \<and> nat \<lfloor>i\<rfloor> < length pgs"
  by (auto simp: pageAt_def Number_isInteger_def split: if_splits)

lemma placeAll_coords:
  assumes "placeAll conv lib st ps = Inr st2" and "cacheAgrees st" and "preservesPages lib"
  shows "map (\<lambda>(pg, img, c). (pg, c)) (drawsOf (calls st2)) =
         map (\<lambda>(pg, img, c). (pg, c)) (drawsOf (calls st)) @
         map (\<lambda>p. (nat \<lfloor>pageIndex p\<rfloor>,
                    conv (getPages lib (doc st) ! nat \<lfloor>pageIndex p\<rfloor>) (rect p))) ps"
  using assms
proof (induction ps arbitrary: st)
  case Nil
  then show ?case by simp
next
  case (Cons p ps)
  from Cons.prems(1) obtain st1 where
    one: "placeOne conv lib st p = Inr st1" and rest: "placeAll conv lib st1 ps = Inr st2"
    by (rule placeAll_Cons_cases)
  note s = placeOne_step [OF one Cons.prems(2)]
  from s(4) obtain sz img where
    pg: "pageAt (getPages lib (doc st)) (pageIndex p) = Some sz" and
    dr: "drawsOf (calls st1) = drawsOf (calls st) @ [(nat \<lfloor>pageIndex p\<rfloor>, img, conv sz (rect p))]"
    by blast
  from pageAt_Some [OF pg] have sz: "sz = getPages lib (doc st) ! nat \<lfloor>pageIndex p\<rfloor>"
    by simp
  from Cons.IH [OF rest s(1) Cons.prems(3)] dr sz placeOne_pages [OF one Cons.prems(3)]
  show ?case by simp
qed

lemma exportWith_cases:
  assumes "exportWith conv lib file ps = Inr out"
  obtains d st where
    "load lib (content file) = Some d"
    "placeAll conv lib \<lparr> doc = d, cache = Map.empty, calls = [] \<rparr> ps = Inr st"
    "save lib (doc st) = Some (download out)"
    "trace out = calls st"
  using assms
  by (auto simp: exportWith_def split: option.splits sum.splits)

lemma cacheAgrees_start: "cacheAgrees \<lparr> doc = d, cache = Map.empty, calls = [] \<rparr>"
  by (simp add: cacheAgrees_def)

lemma exportWith_trace:
  assumes "exportWith conv lib file ps = Inr out"
  shows "\<exists>handles.
           (\<forall>url. embedsOf url (trace out) = (case handles url of None \<Rightarrow> [] | Some i \<Rightarrow> [i])) \<and>
           dom handles = imageDataUrl ` set ps \<and>
           map (\<lambda>(pg, img, c). (pg, Some img)) (drawsOf (trace out)) =
             map (\<lambda>p. (nat \<lfloor>pageIndex p\<rfloor>, handles (imageDataUrl p))) ps"
proof -
  from assms obtain d st where
    run: "placeAll conv lib \<lparr> doc = d, cache = Map.empty, calls = [] \<rparr> ps = Inr st" and
    tr: "trace out = calls st"
    by (rule exportWith_cases)
  from placeAll_cache [OF run cacheAgrees_start]
  have agree: "cacheAgrees st" and keys: "dom (cache st) = imageDataUrl ` set ps"
    by simp_all
  from placeAll_handles [OF run cacheAgrees_start]
  have "map (\<lambda>(pg, img, c). (pg, Some img)) (drawsOf (calls st)) =
          map (\<lambda>p. (nat \<lfloor>pageIndex p\<rfloor>, cache st (imageDataUrl p))) ps"
    by simp
  with agree keys tr show ?thesis
    by (intro exI [of _ "cache st"]) (simp add: cacheAgrees_def)
qed

lemma exportWith_oncePerPayload:
  assumes "exportWith conv lib file ps = Inr out"
  shows "oncePerPayload ps (trace out)"
proof -
  from exportWith_trace [OF assms] obtain handles where
    em: "\<And>url. embedsOf url (trace out) = (case handles url of None \<Rightarrow> [] | Some i \<Rightarrow> [i])" and
    keys: "dom handles = imageDataUrl ` set ps" and
    dr: "map (\<lambda>(pg, img, c). (pg, Some img)) (drawsOf (trace out)) =
           map (\<lambda>p. (nat \<lfloor>pageIndex p\<rfloor>, handles (imageDataUrl p))) ps"
    by blast
  have one: "length (embedsOf url (trace out)) = (if url \<in> imageDataUrl ` set ps then 1 else 0)"
    for url
  proof (cases "handles url")
    case None
    with keys have "url \<notin> imageDataUrl ` set ps" by (metis domIff)
    with None show ?thesis by (simp add: em)
  next
    case (Some i)
    with keys have "url \<in> imageDataUrl ` set ps" by (metis domI)
    with Some show ?thesis by (simp add: em)
  qed
  from arg_cong [OF dr, of length] have len: "length (drawsOf (trace out)) = length ps"
    by simp
  have each: "fst (drawsOf (trace out) ! k) = nat \<lfloor>pageIndex (ps ! k)\<rfloor> \<and>
           embedsOf (imageDataUrl (ps ! k)) (trace out) = [fst (snd (drawsOf (trace out) ! k))]"
    if k: "k < length ps" for k
  proof -
    from k len have
      "map (\<lambda>(pg, img, c). (pg, Some img)) (drawsOf (trace out)) ! k =
         (\<lambda>(pg, img, c). (pg, Some img)) (drawsOf (trace out) ! k)"
      by simp
    moreover from k have
      "map (\<lambda>p. (nat \<lfloor>pageIndex p\<rfloor>, handles (imageDataUrl p))) ps ! k =
         (nat \<lfloor>pageIndex (ps ! k)\<rfloor>, handles (imageDataUrl (ps ! k)))"
      by simp
    ultimately have
      "(\<lambda>(pg, img, c). (pg, Some img)) (drawsOf (trace out) ! k) =
         (nat \<lfloor>pageIndex (ps ! k)\<rfloor>, handles (imageDataUrl (ps ! k)))"
      using dr by simp
    then have "(nat \<lfloor>pageIndex (ps ! k)\<rfloor>, handles (imageDataUrl (ps ! k))) =
         (\<lambda>(pg, img, c). (pg, Some img)) (drawsOf (trace out) ! k)"
      by (rule sym)
    then show ?thesis
      by (cases "drawsOf (trace out) ! k") (simp add: em)
  qed
  from one len each show ?thesis
    unfolding oncePerPayload_def by blast
qed






lemma part000_Inr:
  "exportSignedPdf_part000 lib file ps = Inr out \<longleftrightarrow>
     exportWith pdfCoords_part000 lib file ps = Inr out"
  by (simp add: exportSignedPdf_part000_def split: sum.splits)


lemma testLib_simps:
  "load testLib bs = (if bs = [] then None
                      else Some (if length bs < 2 then [letter] else [letter, letter], [], 0))"
  "getPages testLib (pgs, imgs, n) = pgs"
  "embedPng testLib (pgs, imgs, n) url =
     (if take 14 url = ''data:image/png'' then Some (length imgs, (pgs, imgs @ [url], n)) else None)"
  "embedJpg testLib (pgs, imgs, n) url =
     (if take 15 url = ''data:image/jpeg'' then Some (length imgs, (pgs, imgs @ [url], n)) else None)"
  "drawImage testLib (pgs, imgs, n) pg img px py pw ph = Some (pgs, imgs, Suc n)"
  "save testLib (pgs, imgs, n) = Some [n]"
  by (simp_all add: testLib_def)

lemma testLib_preservesPages: "preservesPages testLib"
  by (auto simp: preservesPages_def testLib_simps split: if_splits)

lemma pageAt_letter:
  "pageAt [letter, letter] 0 = Some letter" "pageAt [letter, letter] 1 = Some letter"
  by (simp_all add: pageAt_def Number_isInteger_def)

lemma letter_simps: "width letter = 612" "height letter = 792"
  by (simp_all add: letter_def)

lemma run_part000_twoPlacements:
  "exportSignedPdf_part000 testLib sampleFile twoPlacements = Inr twoSigned"
  by (simp add: exportSignedPdf_part000_def exportWith_def sampleFile_def twoPlacements_def
      samplePlacement_def placeOne_def embedCached_def testLib_simps pageAt_letter pngUrl_def
      pdfCoords_part000_def sampleRect_def letter_simps twoSigned_def)

lemma run_export_ts_twoPlacements:
  "exportSignedPdf testLib sampleFile twoPlacements = Inr twoSignedScaled"
  by (simp add: exportSignedPdf_def exportWith_def sampleFile_def twoPlacements_def
      samplePlacement_def placeOne_def embedCached_def testLib_simps pageAt_letter pngUrl_def
      pdfCoords_def sampleRect_def letter_simps twoSignedScaled_def)

lemma placeAll_pages_exist:
  assumes "placeAll conv lib st ps = Inr st2" and "preservesPages lib"
  shows "\<forall>p\<in>set ps. nat \<lfloor>pageIndex p\<rfloor> < length (getPages lib (doc st))"
  using assms
proof (induction ps arbitrary: st)
  case Nil
  then show ?case by simp
next
  case (Cons p ps)
  from Cons.prems(1) obtain st1 where
    one: "placeOne conv lib st p = Inr st1" and rest: "placeAll conv lib st1 ps = Inr st2"
    by (rule placeAll_Cons_cases)
  from one obtain sz where "pageAt (getPages lib (doc st)) (pageIndex p) = Some sz"
    by (rule placeOne_cases)
  from pageAt_Some [OF this] Cons.IH [OF rest Cons.prems(2)] placeOne_pages [OF one Cons.prems(2)]
  show ?case by simp
qed

lemma exportWith_coords:
  assumes "exportWith conv lib file ps = Inr out" and "preservesPages lib"
    and "load lib (content file) = Some d"
  shows "map (\<lambda>(pg, img, c). (pg, c)) (drawsOf (trace out)) =
           map (\<lambda>p. (nat \<lfloor>pageIndex p\<rfloor>, conv (getPages lib d ! nat \<lfloor>pageIndex p\<rfloor>) (rect p))) ps"
    and "\<forall>p\<in>set ps. nat \<lfloor>pageIndex p\<rfloor> < length (getPages lib d)"
proof -
  from assms(1,3) obtain st where
    run: "placeAll conv lib \<lparr> doc = d, cache = Map.empty, calls = [] \<rparr> ps = Inr st" and
    tr: "trace out = calls st"
    by (auto elim: exportWith_cases)
  from placeAll_coords [OF run cacheAgrees_start assms(2)] tr
  show "map (\<lambda>(pg, img, c). (pg, c)) (drawsOf (trace out)) =
           map (\<lambda>p. (nat \<lfloor>pageIndex p\<rfloor>, conv (getPages lib d ! nat \<lfloor>pageIndex p\<rfloor>) (rect p))) ps"
    by simp
  from placeAll_pages_exist [OF run assms(2)]
  show "\<forall>p\<in>set ps. nat \<lfloor>pageIndex p\<rfloor> < length (getPages lib d)"
    by simp
qed

lemma load_sampleFile:
  "load testLib (content sampleFile) = Some ([letter, letter], [], 0)"
  by (simp add: testLib_simps sampleFile_def)

lemma strictLib_simps:
  "load strictLib bs = load testLib bs"
  "getPages strictLib dc = getPages testLib dc"
  "embedPng strictLib dc url = embedPng testLib dc url"
  "embedJpg strictLib dc url = embedJpg testLib dc url"
  "drawImage strictLib (pgs, imgs, n) pg img px py pw ph =
     (if pg = 0 then Some (pgs, imgs, Suc n) else None)"
  "save strictLib dc = save testLib dc"
  by (simp_all add: strictLib_def)



text \<open>
  What each version draws, on a library that leaves page sizes alone. The version of
  src/unnamed/part_000 draws every placement, in order, on the page \<open>pageIndex\<close> of size
  \<open>pageWidth\<close> by \<open>pageHeight\<close>, at \<open>x = (rect.x / 100) * pageWidth\<close>,
  \<open>y = pageHeight - ((rect.y + rect.h) / 100) * pageHeight\<close>,
  \<open>width = (rect.w / 100) * pageWidth\<close>, \<open>height = (rect.h / 100) * pageHeight\<close>.
\<close>

lemma part000_draw_coordinates:
  assumes "preservesPages lib" and "load lib (content file) = Some d"
    and "exportSignedPdf_part000 lib file ps = Inr out"
  shows "(\<forall>p\<in>set ps. nat \<lfloor>pageIndex p\<rfloor> < length (getPages lib d)) \<and>
        map (\<lambda>(pg, img, c). (pg, c)) (drawsOf (trace out)) =
          map (\<lambda>p. let pageWidth = width (getPages lib d ! nat \<lfloor>pageIndex p\<rfloor>);
                        pageHeight = height (getPages lib d ! nat \<lfloor>pageIndex p\<rfloor>)
                    in (nat \<lfloor>pageIndex p\<rfloor>,
                        (x (rect p) / 100) * pageWidth,
                        pageHeight - ((y (rect p) + h (rect p)) / 100) * pageHeight,
                        (w (rect p) / 100) * pageWidth,
                        (h (rect p) / 100) * pageHeight)) ps"
proof -
  from assms(3) have run: "exportWith pdfCoords_part000 lib file ps = Inr out"
    by (simp add: part000_Inr)
  from exportWith_coords [OF run assms(1,2)] show ?thesis
    by (simp add: pdfCoords_part000_def Let_def)
qed

text \<open>
  The version of src/modules/write/export.ts draws at \<open>x = rect.x / 1.5\<close>,
  \<open>y = pageHeight - (rect.y + rect.h) / 1.5\<close>, \<open>width = rect.w / 1.5\<close>,
  \<open>height = rect.h / 1.5\<close>, whatever the width of the page.
\<close>

lemma export_ts_draw_coordinates:
  assumes "preservesPages lib" and "load lib (content file) = Some d"
    and "exportSignedPdf lib file ps = Inr out"
  shows "(\<forall>p\<in>set ps. nat \<lfloor>pageIndex p\<rfloor> < length (getPages lib d)) \<and>
        map (\<lambda>(pg, img, c). (pg, c)) (drawsOf (trace out)) =
          map (\<lambda>p. let pageHeight = height (getPages lib d ! nat \<lfloor>pageIndex p\<rfloor>)
                    in (nat \<lfloor>pageIndex p\<rfloor>,
                        x (rect p) / 1.5,
                        pageHeight - (y (rect p) + h (rect p)) / 1.5,
                        w (rect p) / 1.5,
                        h (rect p) / 1.5)) ps"
proof -
  from assms(3) have run: "exportWith pdfCoords lib file ps = Inr out"
    by (simp add: exportSignedPdf_def)
  from exportWith_coords [OF run assms(1,2)] show ?thesis
    by (simp add: pdfCoords_def Let_def)
qed

text \<open>
  C1 does not hold of src/modules/write/export.ts, the module that the store imports. The
  store admits percentage rectangles only, and the placement with the rectangle
  \<open>{x: 10, y: 20, w: 15, h: 5}\<close> that \<open>addPlacement\<close> stored is drawn by this version, on
  a 612 by 792 page, at \<open>x = 20/3\<close>, \<open>y = 2326/3\<close>, \<open>width = 10\<close>, \<open>height = 10/3\<close>:
  the rectangle is divided by the display scale 1.5 and never multiplied by the page
  size. The version of src/unnamed/part_000 draws the same placement at \<open>61.2\<close>, \<open>594\<close>,
  \<open>91.8\<close>, \<open>39.6\<close>, as the claim says.
\<close>

theorem export_ts_misplaces_percent_rect:
  "placements signedOnce = [twoPlacements ! 0] \<and>
   rect (twoPlacements ! 0) = \<lparr> x = 10, y = 20, w = 15, h = 5 \<rparr> \<and>
   pageIndex (twoPlacements ! 0) = 0 \<and>
   load testLib (content sampleFile) = Some ([letter, letter], [], 0) \<and>
   getPages testLib ([letter, letter], [], 0) ! 0 = \<lparr> width = 612, height = 792 \<rparr> \<and>
   exportSignedPdf testLib sampleFile twoPlacements = Inr twoSignedScaled \<and>
   map (\<lambda>(pg, img, c). (pg, c)) (drawsOf (trace twoSignedScaled)) =
     [(0, 20 / 3, 2326 / 3, 10, 10 / 3), (1, 20 / 3, 2326 / 3, 10, 10 / 3)] \<and>
   exportSignedPdf_part000 testLib sampleFile twoPlacements = Inr twoSigned \<and>
   map (\<lambda>(pg, img, c). (pg, c)) (drawsOf (trace twoSigned)) =
     [(0, 61.2, 594, 91.8, 39.6), (1, 61.2, 594, 91.8, 39.6)] \<and>
   (20 / 3, 2326 / 3, 10, 10 / 3) \<noteq> (61.2, 594, 91.8, 39.6 :: real)"
proof -
  note run1 = run_part000_twoPlacements and run2 = run_export_ts_twoPlacements
  have stored: "placements signedOnce = [twoPlacements ! 0]"
    by (simp add: signedOnce_placements twoPlacements_def)
  have first: "rect (twoPlacements ! 0) = \<lparr> x = 10, y = 20, w = 15, h = 5 \<rparr>"
    "pageIndex (twoPlacements ! 0) = 0"
    by (simp_all add: twoPlacements_def samplePlacement_def sampleRect_def)
  have page: "getPages testLib ([letter, letter], [], 0) ! 0 = \<lparr> width = 612, height = 792 \<rparr>"
    by (simp add: testLib_simps letter_def)
  from part000_draw_coordinates [OF testLib_preservesPages load_sampleFile run1]
  have "map (\<lambda>(pg, img, c). (pg, c)) (drawsOf (trace twoSigned)) =
          map (\<lambda>p. let pageWidth = width (getPages testLib ([letter, letter], [], 0) ! nat \<lfloor>pageIndex p\<rfloor>);
                        pageHeight = height (getPages testLib ([letter, letter], [], 0) ! nat \<lfloor>pageIndex p\<rfloor>)
                    in (nat \<lfloor>pageIndex p\<rfloor>,
                        (x (rect p) / 100) * pageWidth,
                        pageHeight - ((y (rect p) + h (rect p)) / 100) * pageHeight,
                        (w (rect p) / 100) * pageWidth,
                        (h (rect p) / 100) * pageHeight)) twoPlacements"
    by blast
  then have d1: "map (\<lambda>(pg, img, c). (pg, c)) (drawsOf (trace twoSigned)) =
      [(0, 61.2, 594, 91.8, 39.6), (1, 61.2, 594, 91.8, 39.6)]"
    by (simp add: twoPlacements_def samplePlacement_def sampleRect_def testLib_simps letter_def)
  from export_ts_draw_coordinates [OF testLib_preservesPages load_sampleFile run2]
  have "map (\<lambda>(pg, img, c). (pg, c)) (drawsOf (trace twoSignedScaled)) =
          map (\<lambda>p. let pageHeight = height (getPages testLib ([letter, letter], [], 0) ! nat \<lfloor>pageIndex p\<rfloor>)
                    in (nat \<lfloor>pageIndex p\<rfloor>,
                        x (rect p) / 1.5,
                        pageHeight - (y (rect p) + h (rect p)) / 1.5,
                        w (rect p) / 1.5,
                        h (rect p) / 1.5)) twoPlacements"
    by blast
  then have d2: "map (\<lambda>(pg, img, c). (pg, c)) (drawsOf (trace twoSignedScaled)) =
      [(0, 20 / 3, 2326 / 3, 10, 10 / 3), (1, 20 / 3, 2326 / 3, 10, 10 / 3)]"
    by (simp add: twoPlacements_def samplePlacement_def sampleRect_def testLib_simps letter_def)
  have ne: "(20 / 3, 2326 / 3, 10, 10 / 3) \<noteq> (61.2, 594, 91.8, 39.6 :: real)"
    by simp
  from stored first page load_sampleFile run1 run2 d1 d2 ne show ?thesis
    by blast
qed


lemma isFailure_simps [simp]: "isFailure (Inl e)" "\<not> isFailure (Inr v)"
  by (simp_all add: isFailure_def)

lemma placeAll_append:
  "placeAll conv lib st (ps1 @ ps2) =
     (case placeAll conv lib st ps1 of
        Inl e \<Rightarrow> Inl e
      | Inr st1 \<Rightarrow> placeAll conv lib st1 ps2)"
  by (induction ps1 arbitrary: st) (simp_all split: sum.splits)

lemma placeAll_fails_at:
  assumes "placeAll conv lib st ps1 = Inr st1" and "isFailure (placeOne conv lib st1 p)"
  shows "isFailure (placeAll conv lib st (ps1 @ p # ps2))"
  using assms by (simp add: placeAll_append isFailure_def split: sum.splits)

lemma placeAll_failure_point:
  assumes "isFailure (placeAll conv lib st ps)"
  shows "\<exists>ps1 p ps2 st1. ps = ps1 @ p # ps2 \<and> placeAll conv lib st ps1 = Inr st1 \<and>
           isFailure (placeOne conv lib st1 p)"
  using assms
proof (induction ps arbitrary: st)
  case Nil
  then show ?case by simp
next
  case (Cons p ps)
  show ?case
  proof (cases "placeOne conv lib st p")
    case (Inl e)
    then have "p # ps = [] @ p # ps \<and> placeAll conv lib st [] = Inr st \<and>
        isFailure (placeOne conv lib st p)"
      by simp
    then show ?thesis by blast
  next
    case (Inr st1)
    with Cons.prems have "isFailure (placeAll conv lib st1 ps)"
      by simp
    from Cons.IH [OF this] obtain ps1 q ps2 st2 where
      "ps = ps1 @ q # ps2" "placeAll conv lib st1 ps1 = Inr st2"
      "isFailure (placeOne conv lib st2 q)"
      by blast
    with Inr have "p # ps = (p # ps1) @ q # ps2 \<and> placeAll conv lib st (p # ps1) = Inr st2 \<and>
        isFailure (placeOne conv lib st2 q)"
      by simp
    then show ?thesis by blast
  qed
qed


lemma embedCached_iff:
  "embedCached lib st url = Inr (img, st1) \<longleftrightarrow> stepImage lib st url img st1"
  by (auto simp: embedCached_def stepImage_def split: option.splits)

lemma embedCached_fails_iff:
  "isFailure (embedCached lib st url) \<longleftrightarrow>
     cache st url = None \<and> embedPng lib (doc st) url = None \<and> embedJpg lib (doc st) url = None"
  by (auto simp: embedCached_def split: option.splits)

lemma placeOne_iff:
  "placeOne conv lib st p = Inr st2 \<longleftrightarrow> stepDone conv lib st p st2"
proof
  assume "placeOne conv lib st p = Inr st2"
  then show "stepDone conv lib st p st2"
    unfolding stepDone_def
    by (elim placeOne_cases) (auto simp: embedCached_iff)
next
  assume "stepDone conv lib st p st2"
  then obtain sz img st1 d where
    "pageAt (getPages lib (doc st)) (pageIndex p) = Some sz"
    "embedCached lib st (imageDataUrl p) = Inr (img, st1)"
    "drawImage lib (doc st1) (nat \<lfloor>pageIndex p\<rfloor>) img
       (fst (conv sz (rect p))) (fst (snd (conv sz (rect p))))
       (fst (snd (snd (conv sz (rect p))))) (snd (snd (snd (conv sz (rect p))))) = Some d"
    "st2 = st1\<lparr> doc := d, calls := calls st1 @
       [DrawImage (nat \<lfloor>pageIndex p\<rfloor>) img
         (fst (conv sz (rect p))) (fst (snd (conv sz (rect p))))
         (fst (snd (snd (conv sz (rect p))))) (snd (snd (snd (conv sz (rect p)))))] \<rparr>"
    unfolding stepDone_def embedCached_iff by blast
  then show "placeOne conv lib st p = Inr st2"
    by (auto simp: placeOne_def split: prod.splits)
qed

lemma placeOne_fails_iff:
  "isFailure (placeOne conv lib st p) \<longleftrightarrow> stepThrows conv lib st p"
proof (cases "pageAt (getPages lib (doc st)) (pageIndex p)")
  case None
  then show ?thesis
    by (simp add: placeOne_def stepThrows_def)
next
  case (Some sz)
  show ?thesis
  proof (cases "embedCached lib st (imageDataUrl p)")
    case (Inl e)
    then have f: "isFailure (embedCached lib st (imageDataUrl p))"
      by simp
    then have none: "cache st (imageDataUrl p) = None \<and>
        embedPng lib (doc st) (imageDataUrl p) = None \<and>
        embedJpg lib (doc st) (imageDataUrl p) = None"
      by (simp add: embedCached_fails_iff)
    from Some Inl have "isFailure (placeOne conv lib st p)"
      by (simp add: placeOne_def)
    with none show ?thesis
      by (simp add: stepThrows_def)
  next
    case (Inr r)
    obtain img st1 where r: "r = (img, st1)"
      by (cases r) auto
    from Inr r have em: "embedCached lib st (imageDataUrl p) = Inr (img, st1)"
      by simp
    then have notnone: "\<not> (cache st (imageDataUrl p) = None \<and>
        embedPng lib (doc st) (imageDataUrl p) = None \<and>
        embedJpg lib (doc st) (imageDataUrl p) = None)"
      using embedCached_fails_iff [of lib st "imageDataUrl p"] by simp
    have same: "img1 = img \<and> st3 = st1" if "stepImage lib st (imageDataUrl p) img1 st3"
      for img1 st3
    proof -
      from that have "embedCached lib st (imageDataUrl p) = Inr (img1, st3)"
        by (simp only: embedCached_iff)
      with em show ?thesis by simp
    qed
    have "isFailure (placeOne conv lib st p) \<longleftrightarrow>
        drawImage lib (doc st1) (nat \<lfloor>pageIndex p\<rfloor>) img
          (fst (conv sz (rect p))) (fst (snd (conv sz (rect p))))
          (fst (snd (snd (conv sz (rect p))))) (snd (snd (snd (conv sz (rect p))))) = None"
      using Some em by (simp add: placeOne_def split: prod.splits option.splits)
    also have "\<dots> \<longleftrightarrow> stepThrows conv lib st p"
    proof
      assume dr: "drawImage lib (doc st1) (nat \<lfloor>pageIndex p\<rfloor>) img
          (fst (conv sz (rect p))) (fst (snd (conv sz (rect p))))
          (fst (snd (snd (conv sz (rect p))))) (snd (snd (snd (conv sz (rect p))))) = None"
      from em have "stepImage lib st (imageDataUrl p) img st1"
        by (simp only: embedCached_iff)
      with Some dr show "stepThrows conv lib st p"
        unfolding stepThrows_def by blast
    next
      assume "stepThrows conv lib st p"
      then have "\<exists>sz1 img1 st3.
          pageAt (getPages lib (doc st)) (pageIndex p) = Some sz1 \<and>
          stepImage lib st (imageDataUrl p) img1 st3 \<and>
          drawImage lib (doc st3) (nat \<lfloor>pageIndex p\<rfloor>) img1
            (fst (conv sz1 (rect p))) (fst (snd (conv sz1 (rect p))))
            (fst (snd (snd (conv sz1 (rect p))))) (snd (snd (snd (conv sz1 (rect p))))) = None"
        using Some notnone by (simp add: stepThrows_def)
      then obtain sz1 img1 st3 where
        pg: "pageAt (getPages lib (doc st)) (pageIndex p) = Some sz1" and
        im: "stepImage lib st (imageDataUrl p) img1 st3" and
        dr: "drawImage lib (doc st3) (nat \<lfloor>pageIndex p\<rfloor>) img1
          (fst (conv sz1 (rect p))) (fst (snd (conv sz1 (rect p))))
          (fst (snd (snd (conv sz1 (rect p))))) (snd (snd (snd (conv sz1 (rect p))))) = None"
        by blast
      from pg Some have "sz1 = sz"
        by simp
      moreover from same [OF im] have "img1 = img" "st3 = st1"
        by simp_all
      ultimately show "drawImage lib (doc st1) (nat \<lfloor>pageIndex p\<rfloor>) img
          (fst (conv sz (rect p))) (fst (snd (conv sz (rect p))))
          (fst (snd (snd (conv sz (rect p))))) (snd (snd (snd (conv sz (rect p))))) = None"
        using dr by simp
    qed
    finally show ?thesis .
  qed
qed

lemma placeAll_Cons_iff:
  "placeAll conv lib st (p # ps) = Inr st2 \<longleftrightarrow>
     (\<exists>st1. placeOne conv lib st p = Inr st1 \<and> placeAll conv lib st1 ps = Inr st2)"
  by (cases "placeOne conv lib st p") simp_all

lemma placeAll_iff:
  "placeAll conv lib st ps = Inr st2 \<longleftrightarrow> placedAll conv lib st ps st2"
proof (induction ps arbitrary: st)
  case Nil
  show ?case by auto
next
  case (Cons p ps)
  show ?case
    by (simp only: placeAll_Cons_iff placeOne_iff Cons.IH placedAll.simps)
qed

lemma exportWith_fails_code:
  "isFailure (exportWith conv lib file ps) \<longleftrightarrow>
     (case load lib (content file) of
        None \<Rightarrow> True
      | Some d \<Rightarrow>
          (\<exists>ps1 p ps2 st1. ps = ps1 @ p # ps2 \<and>
             placeAll conv lib \<lparr> doc = d, cache = Map.empty, calls = [] \<rparr> ps1 = Inr st1 \<and>
             isFailure (placeOne conv lib st1 p)) \<or>
          (\<exists>st. placeAll conv lib \<lparr> doc = d, cache = Map.empty, calls = [] \<rparr> ps = Inr st \<and>
             save lib (doc st) = None))"
proof (cases "load lib (content file)")
  case None
  then show ?thesis
    by (simp add: exportWith_def)
next
  case (Some d)
  show ?thesis
  proof (cases "placeAll conv lib \<lparr> doc = d, cache = Map.empty, calls = [] \<rparr> ps")
    case (Inl e)
    then have "isFailure (placeAll conv lib \<lparr> doc = d, cache = Map.empty, calls = [] \<rparr> ps)"
      by simp
    from placeAll_failure_point [OF this] Some Inl show ?thesis
      by (simp add: exportWith_def)
  next
    case (Inr st)
    have "\<not> isFailure (placeAll conv lib \<lparr> doc = d, cache = Map.empty, calls = [] \<rparr> (ps1 @ p # ps2))
            \<Longrightarrow> placeAll conv lib \<lparr> doc = d, cache = Map.empty, calls = [] \<rparr> ps1 = Inr st1
            \<Longrightarrow> \<not> isFailure (placeOne conv lib st1 p)" for ps1 p ps2 st1
      using placeAll_fails_at by blast
    with Inr have nofail: "\<not> (\<exists>ps1 p ps2 st1. ps = ps1 @ p # ps2 \<and>
        placeAll conv lib \<lparr> doc = d, cache = Map.empty, calls = [] \<rparr> ps1 = Inr st1 \<and>
        isFailure (placeOne conv lib st1 p))"
      by (metis isFailure_simps(2))
    from Some Inr nofail show ?thesis
      by (simp add: exportWith_def split: option.splits)
  qed
qed

lemma exportWith_fails_iff:
  "isFailure (exportWith conv lib file ps) \<longleftrightarrow> failedStep conv lib file ps"
  unfolding failedStep_def exportWith_fails_code
  by (simp only: placeAll_iff placeOne_fails_iff)

lemma part000_fails_iff:
  "isFailure (exportSignedPdf_part000 lib file ps) \<longleftrightarrow>
     isFailure (exportWith pdfCoords_part000 lib file ps)"
  by (simp add: exportSignedPdf_part000_def split: sum.splits)

lemma exportAll_failure:
  assumes "pdfFile s = Some file" and "placements s \<noteq> []"
    and "isFailure (exportFn file (placements s))"
  shows "exportAll exportFn s = (s, Inl ''Failed to export PDF. Please try again.'')"
  using assms by (simp add: exportAll_def isFailure_def split: sum.splits)

lemma exportWith_placed:
  assumes "exportWith conv lib file ps = Inr out"
  shows "length (drawsOf (trace out)) = length ps \<and>
         (\<exists>d st. load lib (content file) = Some d \<and>
            placedAll conv lib \<lparr> doc = d, cache = Map.empty, calls = [] \<rparr> ps st \<and>
            trace out = calls st \<and> save lib (doc st) = Some (download out))"
proof -
  from exportWith_oncePerPayload [OF assms] have "length (drawsOf (trace out)) = length ps"
    by (simp add: oncePerPayload_def)
  moreover from assms obtain d st where
    "load lib (content file) = Some d"
    "placeAll conv lib \<lparr> doc = d, cache = Map.empty, calls = [] \<rparr> ps = Inr st"
    "save lib (doc st) = Some (download out)"
    "trace out = calls st"
    by (rule exportWith_cases)
  then have "\<exists>d st. load lib (content file) = Some d \<and>
      placedAll conv lib \<lparr> doc = d, cache = Map.empty, calls = [] \<rparr> ps st \<and>
      trace out = calls st \<and> save lib (doc st) = Some (download out)"
    unfolding placeAll_iff by blast
  ultimately show ?thesis by simp
qed

text \<open>
  C6. In each version the export fails exactly when one of its steps fails, the steps
  being those of the library: the source does not load; or, the placements before it
  placed, a placement's page is missing, its payload embeds in neither format, or its
  draw throws; or the document does not save. A failed export hands nothing to the
  browser: \<open>exportAll\<close> ends in the alert and returns the state of the store, source
  file and placements included, as it was, so the same call can be made again. An export
  that completes has placed every placement of the list, by draws that returned, on the
  document that it saved: the download is never a document with only some of them.
\<close>

theorem export_all_or_nothing:
  "(isFailure (exportSignedPdf lib file ps) \<longleftrightarrow> failedStep pdfCoords lib file ps) \<and>
   (isFailure (exportSignedPdf_part000 lib file ps) \<longleftrightarrow> failedStep pdfCoords_part000 lib file ps) \<and>
   (exportSignedPdf lib file ps = Inr out \<longrightarrow>
      length (drawsOf (trace out)) = length ps \<and>
      (\<exists>d st. load lib (content file) = Some d \<and>
         placedAll pdfCoords lib \<lparr> doc = d, cache = Map.empty, calls = [] \<rparr> ps st \<and>
         trace out = calls st \<and> save lib (doc st) = Some (download out))) \<and>
   (exportSignedPdf_part000 lib file ps = Inr out \<longrightarrow>
      length (drawsOf (trace out)) = length ps \<and>
      (\<exists>d st. load lib (content file) = Some d \<and>
         placedAll pdfCoords_part000 lib \<lparr> doc = d, cache = Map.empty, calls = [] \<rparr> ps st \<and>
         trace out = calls st \<and> save lib (doc st) = Some (download out))) \<and>
   (pdfFile s = Some file \<and> placements s = ps \<and> ps \<noteq> [] \<and>
      isFailure (exportSignedPdf lib file ps) \<longrightarrow>
      exportAll (exportSignedPdf lib) s = (s, Inl ''Failed to export PDF. Please try again.'')) \<and>
   (pdfFile s = Some file \<and> placements s = ps \<and> ps \<noteq> [] \<and>
      isFailure (exportSignedPdf_part000 lib file ps) \<longrightarrow>
      exportAll (exportSignedPdf_part000 lib) s =
        (s, Inl ''Failed to export PDF. Please try again.''))"
proof (intro conjI)
  show "isFailure (exportSignedPdf lib file ps) \<longleftrightarrow> failedStep pdfCoords lib file ps"
    by (simp add: exportSignedPdf_def exportWith_fails_iff)
  show "isFailure (exportSignedPdf_part000 lib file ps) \<longleftrightarrow>
      failedStep pdfCoords_part000 lib file ps"
    by (simp add: part000_fails_iff exportWith_fails_iff)
  show "exportSignedPdf lib file ps = Inr out \<longrightarrow>
      length (drawsOf (trace out)) = length ps \<and>
      (\<exists>d st. load lib (content file) = Some d \<and>
         placedAll pdfCoords lib \<lparr> doc = d, cache = Map.empty, calls = [] \<rparr> ps st \<and>
         trace out = calls st \<and> save lib (doc st) = Some (download out))"
    using exportWith_placed [of pdfCoords lib "file" ps out]
    by (simp add: exportSignedPdf_def)
  show "exportSignedPdf_part000 lib file ps = Inr out \<longrightarrow>
      length (drawsOf (trace out)) = length ps \<and>
      (\<exists>d st. load lib (content file) = Some d \<and>
         placedAll pdfCoords_part000 lib \<lparr> doc = d, cache = Map.empty, calls = [] \<rparr> ps st \<and>
         trace out = calls st \<and> save lib (doc st) = Some (download out))"
    using exportWith_placed [of pdfCoords_part000 lib "file" ps out]
    by (simp add: part000_Inr)
  show "pdfFile s = Some file \<and> placements s = ps \<and> ps \<noteq> [] \<and>
      isFailure (exportSignedPdf lib file ps) \<longrightarrow>
      exportAll (exportSignedPdf lib) s = (s, Inl ''Failed to export PDF. Please try again.'')"
    using exportAll_failure [of s "file" "exportSignedPdf lib"] by blast
  show "pdfFile s = Some file \<and> placements s = ps \<and> ps \<noteq> [] \<and>
      isFailure (exportSignedPdf_part000 lib file ps) \<longrightarrow>
      exportAll (exportSignedPdf_part000 lib) s =
        (s, Inl ''Failed to export PDF. Please try again.'')"
    using exportAll_failure [of s "file" "exportSignedPdf_part000 lib"] by blast
qed

lemma run_export_ts_badPlacements:
  "exportSignedPdf testLib sampleFile badPlacements = Inl EmbedFailed"
  by (simp add: exportSignedPdf_def exportWith_def sampleFile_def badPlacements_def
      samplePlacement_def placeOne_def embedCached_def testLib_simps pageAt_letter pngUrl_def
      gifUrl_def pdfCoords_def sampleRect_def letter_simps)

lemma run_part000_badPlacements:
  "exportSignedPdf_part000 testLib sampleFile badPlacements = Inl ExportFailed"
  by (simp add: exportSignedPdf_part000_def exportWith_def sampleFile_def badPlacements_def
      samplePlacement_def placeOne_def embedCached_def testLib_simps pageAt_letter pngUrl_def
      gifUrl_def pdfCoords_part000_def sampleRect_def letter_simps)

lemma run_export_ts_strictLib:
  "exportSignedPdf strictLib sampleFile twoPlacements = Inl DrawFailed"
  by (simp add: exportSignedPdf_def exportWith_def sampleFile_def twoPlacements_def
      samplePlacement_def placeOne_def embedCached_def strictLib_simps testLib_simps
      pageAt_letter pngUrl_def pdfCoords_def sampleRect_def letter_simps)

lemma run_part000_strictLib:
  "exportSignedPdf_part000 strictLib sampleFile twoPlacements = Inl ExportFailed"
  by (simp add: exportSignedPdf_part000_def exportWith_def sampleFile_def twoPlacements_def
      samplePlacement_def placeOne_def embedCached_def strictLib_simps testLib_simps
      pageAt_letter pngUrl_def pdfCoords_part000_def sampleRect_def letter_simps)

lemma badStore_fields:
  "pdfFile badStore = Some sampleFile" "placements badStore = badPlacements"
  "badPlacements \<noteq> []"
  by (simp_all add: badStore_def onePage_def setPages_def loadFile_def badPlacements_def)

lemma twoStore_fields:
  "pdfFile twoStore = Some sampleFile" "placements twoStore = twoPlacements"
  "twoPlacements \<noteq> []"
  by (simp_all add: twoStore_def onePage_def setPages_def loadFile_def twoPlacements_def)

lemma rejected_calls:
  "embedPng testLib ([letter, letter], [pngUrl], 1) gifUrl = None"
  "embedJpg testLib ([letter, letter], [pngUrl], 1) gifUrl = None"
  "drawImage strictLib ([letter, letter], [pngUrl], 1) 1 0 (20 / 3) (2326 / 3) 10 (10 / 3) = None"
  by (simp_all add: testLib_simps strictLib_simps gifUrl_def)

theorem export_all_or_nothing_witness:
  "pdfFile badStore = Some sampleFile \<and> placements badStore = badPlacements \<and>
   badPlacements \<noteq> [] \<and>
   embedPng testLib ([letter, letter], [pngUrl], 1) gifUrl = None \<and>
   embedJpg testLib ([letter, letter], [pngUrl], 1) gifUrl = None \<and>
   exportSignedPdf testLib sampleFile badPlacements = Inl EmbedFailed \<and>
   exportSignedPdf_part000 testLib sampleFile badPlacements = Inl ExportFailed \<and>
   failedStep pdfCoords testLib sampleFile badPlacements \<and>
   failedStep pdfCoords_part000 testLib sampleFile badPlacements \<and>
   exportAll (exportSignedPdf testLib) badStore =
     (badStore, Inl ''Failed to export PDF. Please try again.'') \<and>
   exportAll (exportSignedPdf_part000 testLib) badStore =
     (badStore, Inl ''Failed to export PDF. Please try again.'') \<and>
   pdfFile twoStore = Some sampleFile \<and> placements twoStore = twoPlacements \<and>
   twoPlacements \<noteq> [] \<and>
   drawImage strictLib ([letter, letter], [pngUrl], 1) 1 0 (20 / 3) (2326 / 3) 10 (10 / 3) = None \<and>
   exportSignedPdf strictLib sampleFile twoPlacements = Inl DrawFailed \<and>
   exportSignedPdf_part000 strictLib sampleFile twoPlacements = Inl ExportFailed \<and>
   failedStep pdfCoords strictLib sampleFile twoPlacements \<and>
   failedStep pdfCoords_part000 strictLib sampleFile twoPlacements \<and>
   exportAll (exportSignedPdf strictLib) twoStore =
     (twoStore, Inl ''Failed to export PDF. Please try again.'') \<and>
   exportAll (exportSignedPdf_part000 strictLib) twoStore =
     (twoStore, Inl ''Failed to export PDF. Please try again.'') \<and>
   exportSignedPdf testLib sampleFile twoPlacements = Inr twoSignedScaled \<and>
   length (drawsOf (trace twoSignedScaled)) = length twoPlacements \<and>
   exportSignedPdf_part000 testLib sampleFile twoPlacements = Inr twoSigned \<and>
   length (drawsOf (trace twoSigned)) = length twoPlacements"
proof -
  note bad = export_all_or_nothing [of testLib sampleFile badPlacements twoSigned badStore]
  note strict = export_all_or_nothing [of strictLib sampleFile twoPlacements twoSigned twoStore]
  note good1 = export_all_or_nothing [of testLib sampleFile twoPlacements twoSignedScaled twoStore]
  note good2 = export_all_or_nothing [of testLib sampleFile twoPlacements twoSigned twoStore]
  have f1: "isFailure (exportSignedPdf testLib sampleFile badPlacements)"
    by (simp add: run_export_ts_badPlacements)
  have f2: "isFailure (exportSignedPdf_part000 testLib sampleFile badPlacements)"
    by (simp add: run_part000_badPlacements)
  have f3: "isFailure (exportSignedPdf strictLib sampleFile twoPlacements)"
    by (simp add: run_export_ts_strictLib)
  have f4: "isFailure (exportSignedPdf_part000 strictLib sampleFile twoPlacements)"
    by (simp add: run_part000_strictLib)
  from bad f1 f2 have a: "failedStep pdfCoords testLib sampleFile badPlacements"
    "failedStep pdfCoords_part000 testLib sampleFile badPlacements"
    by blast+
  from bad f1 f2 badStore_fields have b:
    "exportAll (exportSignedPdf testLib) badStore =
       (badStore, Inl ''Failed to export PDF. Please try again.'')"
    "exportAll (exportSignedPdf_part000 testLib) badStore =
       (badStore, Inl ''Failed to export PDF. Please try again.'')"
    by blast+
  from strict f3 f4 have c: "failedStep pdfCoords strictLib sampleFile twoPlacements"
    "failedStep pdfCoords_part000 strictLib sampleFile twoPlacements"
    by blast+
  from strict f3 f4 twoStore_fields have d:
    "exportAll (exportSignedPdf strictLib) twoStore =
       (twoStore, Inl ''Failed to export PDF. Please try again.'')"
    "exportAll (exportSignedPdf_part000 strictLib) twoStore =
       (twoStore, Inl ''Failed to export PDF. Please try again.'')"
    by blast+
  from good1 run_export_ts_twoPlacements have e:
    "length (drawsOf (trace twoSignedScaled)) = length twoPlacements"
    by blast
  from good2 run_part000_twoPlacements have g:
    "length (drawsOf (trace twoSigned)) = length twoPlacements"
    by blast
  from a b c d e g badStore_fields twoStore_fields rejected_calls
    run_export_ts_badPlacements run_part000_badPlacements
    run_export_ts_strictLib run_part000_strictLib
    run_export_ts_twoPlacements run_part000_twoPlacements
  show ?thesis
    by (intro conjI)
qed

section \<open>Properties of the drag gesture\<close>
















end
